theory Spec2Isabelle
  imports Main "HOL-Library.Word"
begin

section \<open>Go values shared by all components\<close>

text \<open>
  Go strings are byte strings, so they are \<open>string\<close> (a list of 8-bit \<open>char\<close>) and
  \<open>len\<close> is \<open>length\<close>. A Go \<open>error\<close> result is \<open>error option\<close>: \<open>None\<close> is \<open>nil\<close>.
  A runtime panic is the value \<open>Panic\<close> of the type \<open>'a go\<close>.
\<close>

type_synonym byte = "8 word"

datatype error =
    errExit                     \<comment> \<open>\<open>errors.New("exited REPL session")\<close>\<close>
  | errNoScript                 \<comment> \<open>\<open>errors.New("no script defined")\<close>\<close>
  | errUnknownCommand string    \<comment> \<open>\<open>fmt.Errorf(unknownCommandMessage, field)\<close>\<close>
  | errCannotStart              \<comment> \<open>\<open>fmt.Errorf("cannot start REPL session: ...")\<close>\<close>
  | ErrClosed                   \<comment> \<open>\<open>os.ErrClosed\<close>: the file was already closed\<close>
  | ErrInvalid                  \<comment> \<open>\<open>os.ErrInvalid\<close>: a method called on a nil \<open>*os.File\<close>\<close>
  | EOF                         \<comment> \<open>\<open>io.EOF\<close>\<close>
  | errIO                       \<comment> \<open>any other error of the operating system or the chat service\<close>

datatype 'a go = Panic | Return 'a

text \<open>\<open>s[n:]\<close> panics when \<open>n\<close> exceeds \<open>len(s)\<close>.\<close>

definition slice_from :: "nat \<Rightarrow> string \<Rightarrow> string go" where
  "slice_from n s = (if length s < n then Panic else Return (drop n s))"

text \<open>\<open>strings.HasPrefix(s, prefix)\<close> is \<open>len(s) >= len(prefix) && s[0:len(prefix)] == prefix\<close>.\<close>

definition HasPrefix :: "string \<Rightarrow> string \<Rightarrow> bool" where
  "HasPrefix s p = (length p \<le> length s \<and> take (length p) s = p)"

section \<open>The input router of \<open>session.go\<close>\<close>

definition controlCharTable :: "string \<rightharpoonup> byte" where
  "controlCharTable =
     [''r'' \<mapsto> 0x10, ''ret'' \<mapsto> 0x10, ''ctrl-c'' \<mapsto> 0x03, ''ctrl-d'' \<mapsto> 0x04]"

definition helpCommand :: string where
  "helpCommand = ''!help''"

definition exitCommand :: string where
  "exitCommand = ''!exit''"

definition availableCommandsMessage :: string where
  "availableCommandsMessage =
     ''Available commands:'' @ [CHR 0x0A] @
     ''  `!ret`, `!r` - Send empty return'' @ [CHR 0x0A] @
     ''  `!ctrl-c`, `!ctrl-d`, ... - Send command sequence'' @ [CHR 0x0A] @
     ''  `!exit` - Exit this session''"

text \<open>
  What a handler does to the outside is the list of the calls it makes, in order: a write
  of raw bytes to the terminal (\<open>outputWriter.Write\<close>), a write of a string
  (\<open>io.WriteString\<close>), or a chat message. Whether a call succeeds is decided outside the
  program, so the result of the one call a handler makes is an argument.
\<close>

datatype format = Text | Markdown | Code

datatype call =
    TermWrite "byte list"
  | TermWriteString string
  | ChatSend format string

record io =
  send_result :: "error option"
  write_result :: "error option"

text \<open>The bytes a list of calls puts on the terminal.\<close>

definition byte_of_char :: "char \<Rightarrow> byte" where
  "byte_of_char c = of_nat (of_char c)"

fun terminal_bytes :: "call list \<Rightarrow> byte list" where
  "terminal_bytes [] = []"
| "terminal_bytes (TermWrite bs # cs) = bs @ terminal_bytes cs"
| "terminal_bytes (TermWriteString s # cs) = map byte_of_char s @ terminal_bytes cs"
| "terminal_bytes (ChatSend f m # cs) = terminal_bytes cs"

text \<open>\<open>Session.handleUserInput\<close> of \<open>session.go\<close>.\<close>

definition handleUserInput :: "io \<Rightarrow> string \<Rightarrow> (error option \<times> call list) go" where
  "handleUserInput w input =
     (if input = helpCommand then
        Return (send_result w, [ChatSend Markdown availableCommandsMessage])
      else if input = exitCommand then
        Return (Some errExit, [])
      else
        (case slice_from 1 input of
           Panic \<Rightarrow> Panic
         | Return key \<Rightarrow>
             (case controlCharTable key of
                Some controlChar \<Rightarrow> Return (write_result w, [TermWrite [controlChar]])
              | None \<Rightarrow> Return (write_result w, [TermWriteString (input @ [CHR 0x0A])]))))"

text \<open>
  \<open>repl.handleUserInput\<close> of \<open>bot/repl.go\<close>. The constants \<open>helpCommand\<close>, \<open>exitCommand\<close> and
  \<open>controlCharTable\<close> of package \<open>bot\<close> are the ones of \<open>session.go\<close>; \<open>commentPrefix\<close> is
  declared in no file of the sources and is an argument.
\<close>

definition repl_handleUserInput ::
    "string \<Rightarrow> io \<Rightarrow> string \<Rightarrow> (error option \<times> call list) go" where
  "repl_handleUserInput commentPrefix w input =
     (if input = helpCommand then
        Return (send_result w, [ChatSend Markdown availableCommandsMessage])
      else if input = exitCommand then
        Return (Some errExit, [])
      else if HasPrefix input commentPrefix then
        Return (None, [])
      else
        (case slice_from 1 input of
           Panic \<Rightarrow> Panic
         | Return key \<Rightarrow>
             (case controlCharTable key of
                Some controlChar \<Rightarrow> Return (write_result w, [TermWrite [controlChar]])
              | None \<Rightarrow> Return (write_result w, [TermWriteString (input @ [CHR 0x0A])]))))"

section \<open>The output forwarder of \<open>bot/repl.go\<close>\<close>

text \<open>
  \<open>shellEscapeRegex\<close> is \<open>\x1B\[[0-9;]*[a-zA-Z]\<close>, and
  \<open>shellEscapeRegex.ReplaceAllString(s, "")\<close> deletes every match, leftmost first. The
  scan below keeps in \<open>pend\<close> the bytes read so far of a match that has begun (nothing,
  the escape byte, or the escape byte, the bracket and parameter bytes): a letter completes
  the match and \<open>pend\<close> is dropped; any other byte ends the attempt and \<open>pend\<close> is
  kept, since no match can begin inside it.
\<close>

definition ESC :: char where
  "ESC = CHR 0x1B"

definition isParam :: "char \<Rightarrow> bool" where
  "isParam c = ((48 \<le> (of_char c :: nat) \<and> (of_char c :: nat) \<le> 57) \<or> (of_char c :: nat) = 59)"

definition isLetter :: "char \<Rightarrow> bool" where
  "isLetter c = ((65 \<le> (of_char c :: nat) \<and> (of_char c :: nat) \<le> 90) \<or>
                 (97 \<le> (of_char c :: nat) \<and> (of_char c :: nat) \<le> 122))"

fun stripEscapes :: "string \<Rightarrow> string \<Rightarrow> string" where
  "stripEscapes pend [] = pend"
| "stripEscapes pend (c # cs) =
     (if pend = [] then
        (if c = ESC then stripEscapes [c] cs else c # stripEscapes [] cs)
      else if pend = [ESC] then
        (if c = CHR ''['' then stripEscapes (pend @ [c]) cs
         else if c = ESC then pend @ stripEscapes [c] cs
         else pend @ c # stripEscapes [] cs)
      else
        (if isParam c then stripEscapes (pend @ [c]) cs
         else if isLetter c then stripEscapes [] cs
         else if c = ESC then pend @ stripEscapes [c] cs
         else pend @ c # stripEscapes [] cs))"

definition ReplaceAllString :: "string \<Rightarrow> string" where
  "ReplaceAllString s = stripEscapes [] s"

definition maxMessageLength :: nat where
  "maxMessageLength = 512"

text \<open>
  The chat service: \<open>Send\<close> appends the call to \<open>calls\<close> and returns the next of the
  results the service has in store (\<open>outcomes\<close>; success once they are used up).
\<close>

record sender =
  outcomes :: "error option list"
  calls :: "(format \<times> string) list"

definition Send :: "string \<Rightarrow> format \<Rightarrow> sender \<Rightarrow> error option \<times> sender" where
  "Send m f s =
     (case outcomes s of
        [] \<Rightarrow> (None, s\<lparr>calls := calls s @ [(f, m)]\<rparr>)
      | r # rs \<Rightarrow> (r, s\<lparr>outcomes := rs, calls := calls s @ [(f, m)]\<rparr>))"

text \<open>
  \<open>commandOutputForwarder\<close>: one equation per case of the \<open>select\<close>, run over the events
  in the order in which the \<open>select\<close> takes them. The result is the error returned
  (\<open>None\<close> while the loop still waits, the events being used up), the buffer \<open>message\<close>
  and the chat service.
\<close>

datatype event = OutChan string | TimeAfter | CtxDone

fun commandOutputForwarder ::
    "event list \<Rightarrow> string \<Rightarrow> sender \<Rightarrow> error option \<times> string \<times> sender" where
  "commandOutputForwarder [] message s = (None, message, s)"
| "commandOutputForwarder (OutChan result # evs) message s =
     (if length (message @ ReplaceAllString result) > maxMessageLength then
        (case Send (message @ ReplaceAllString result) Code s of
           (Some err, s') \<Rightarrow> (Some err, message @ ReplaceAllString result, s')
         | (None, s') \<Rightarrow> commandOutputForwarder evs [] s')
      else commandOutputForwarder evs (message @ ReplaceAllString result) s)"
| "commandOutputForwarder (TimeAfter # evs) message s =
     (if length message > 0 then
        (case Send message Code s of
           (Some err, s') \<Rightarrow> (Some err, message, s')
         | (None, s') \<Rightarrow> commandOutputForwarder evs [] s')
      else commandOutputForwarder evs message s)"
| "commandOutputForwarder (CtxDone # evs) message s =
     (if length message > 0 then
        (case Send message Code s of
           (Some err, s') \<Rightarrow> (Some err, message, s')
         | (None, s') \<Rightarrow> (Some errExit, message, s'))
      else (Some errExit, message, s))"

section \<open>The session of \<open>part_001\<close>\<close>

text \<open>
  The session runs three loops at once: \<open>inputLoop\<close> (which calls \<open>replSession\<close> and,
  inside it, reads the chat lines itself), the goroutine that reads the pty, and the
  goroutine that turns what was read into chat messages. The model runs them as an
  interleaving: each event is one turn of one loop. What the session does is recorded
  in \<open>trace\<close>, in order: the calls it makes and the moment \<open>closed\<close> is set.
\<close>

definition availableREPLs :: "string \<rightharpoonup> string" where
  "availableREPLs =
     [''bash'' \<mapsto> ''docker run -it ubuntu'', ''python'' \<mapsto> ''docker run -it python'',
      ''nodejs'' \<mapsto> ''docker run -it node'']"

definition byeMessage :: string where
  "byeMessage = ''REPLbot says bye bye!''"

fun Join :: "string list \<Rightarrow> string \<Rightarrow> string" where
  "Join [] sep = []"
| "Join [x] sep = x"
| "Join (x # xs) sep = x @ sep @ Join xs sep"

text \<open>
  \<open>replList\<close> ranges over the map \<open>availableREPLs\<close>, in an order that Go leaves open;
  the model takes the order of the declaration.
\<close>

definition replList :: "string list" where
  "replList = map (\<lambda>name. ''`'' @ name @ ''`'') [''bash'', ''python'', ''nodejs'']"

definition welcomeMessage :: "string \<Rightarrow> string" where
  "welcomeMessage repls =
     ''REPLbot welcomes you!'' @ [CHR 0x0A, CHR 0x0A] @
     ''You may start a new session by choosing any one of the available REPLs: '' @ repls @
     ''. Type `!help` for help and `!exit` to exit this session.''"

definition sessionExitedMessage :: "string \<Rightarrow> string" where
  "sessionExitedMessage repls =
     ''REPL session ended.'' @ [CHR 0x0A, CHR 0x0A] @
     ''You may start a new session by choosing any one of the available REPLs: '' @ repls @
     ''. Type `!help` for help and `!exit` to exit this session.''"

datatype action = Did call | SetClosed

text \<open>
  Where \<open>inputLoop\<close> stands: in its own \<open>range\<close> loop, inside \<open>replSession\<close> (with
  whether the output goroutine still runs, and its buffer \<open>message\<close>), or returned.
\<close>

datatype phase = InInputLoop | InReplSession bool string | InputLoopReturned

record Session =
  closed :: bool
  phase :: phase
  trace :: "action list"

definition sendText :: "string \<Rightarrow> Session \<Rightarrow> Session" where
  "sendText message s = s\<lparr>trace := trace s @ [Did (ChatSend Text message)]\<rparr>"

definition sendMarkdown :: "string \<Rightarrow> Session \<Rightarrow> Session" where
  "sendMarkdown markdown s = s\<lparr>trace := trace s @ [Did (ChatSend Markdown markdown)]\<rparr>"

text \<open>\<open>strings.ReplaceAll(message, "```", "` ` `")\<close>.\<close>

fun ReplaceAll_backticks :: "string \<Rightarrow> string" where
  "ReplaceAll_backticks (a # b # c # cs) =
     (if a = CHR ''`'' \<and> b = CHR ''`'' \<and> c = CHR ''`''
      then ''` ` `'' @ ReplaceAll_backticks cs
      else a # ReplaceAll_backticks (b # c # cs))"
| "ReplaceAll_backticks cs = cs"

definition sendCode :: "string \<Rightarrow> Session \<Rightarrow> Session" where
  "sendCode message s = sendMarkdown (''```'' @ ReplaceAll_backticks message @ ''```'') s"

definition close :: "string \<Rightarrow> Session \<Rightarrow> Session" where
  "close message s =
     (if closed s then s
      else (sendText message s)\<lparr>closed := True,
             trace := trace (sendText message s) @ [SetClosed]\<rparr>)"

definition sayHello :: "Session \<Rightarrow> Session" where
  "sayHello s = sendMarkdown (welcomeMessage (Join replList '', '')) s"

definition sayExited :: "Session \<Rightarrow> Session" where
  "sayExited s = sendMarkdown (sessionExitedMessage (Join replList '', '')) s"

text \<open>\<open>NewSession\<close> starts \<open>inputLoop\<close>, whose first statement is \<open>s.sayHello()\<close>.\<close>

definition NewSession :: Session where
  "NewSession = sayHello \<lparr>closed = False, phase = InInputLoop, trace = []\<rparr>"

text \<open>
  One turn of the loop of \<open>inputLoop\<close>, for the line \<open>input\<close>; \<open>started\<close> is the result
  of \<open>pty.Start\<close>, should \<open>replSession\<close> be called. When \<open>pty.Start\<close> fails
  \<open>replSession\<close> returns at once and \<open>inputLoop\<close> goes on with \<open>s.sayExited()\<close>;
  otherwise \<open>inputLoop\<close> is inside \<open>replSession\<close> from now on.
\<close>

definition inputLoop :: "string \<Rightarrow> error option \<Rightarrow> Session \<Rightarrow> Session" where
  "inputLoop input started s =
     (if input = ''!exit'' then (close byeMessage s)\<lparr>phase := InputLoopReturned\<rparr>
      else if input = ''!help'' then sendMarkdown availableCommandsMessage s
      else
        (case availableREPLs input of
           None \<Rightarrow> sendMarkdown ''Invalid command'' s
         | Some command \<Rightarrow>
             (case started of
                Some err \<Rightarrow> sayExited s
              | None \<Rightarrow>
                  (sendMarkdown ''Started a new REPL session'' s)
                    \<lparr>phase := InReplSession True []\<rparr>)))"

text \<open>
  One turn of the loop over \<open>s.inputChan\<close> at the end of \<open>replSession\<close>; \<open>written\<close> is
  the result of \<open>io.WriteString\<close>. Returning from \<open>replSession\<close> runs its deferred
  function (which cancels the two goroutines) and then \<open>s.sayExited()\<close> in \<open>inputLoop\<close>.
\<close>

definition replSession_return :: "Session \<Rightarrow> Session" where
  "replSession_return s = sayExited (s\<lparr>phase := InInputLoop\<rparr>)"

definition replSession_write :: "string \<Rightarrow> error option \<Rightarrow> Session \<Rightarrow> Session" where
  "replSession_write input written s =
     (case written of
        Some err \<Rightarrow>
          replSession_return (s\<lparr>trace := trace s @ [Did (TermWriteString (input @ [CHR 0x0A]))]\<rparr>)
      | None \<Rightarrow> s\<lparr>trace := trace s @ [Did (TermWriteString (input @ [CHR 0x0A]))]\<rparr>)"

definition replSession_input :: "string \<Rightarrow> error option \<Rightarrow> Session \<Rightarrow> Session" where
  "replSession_input input written s =
     (if HasPrefix input ''!'' then
        (if input = ''!help'' then sendMarkdown availableCommandsMessage s
         else if input = ''!exit'' then replSession_return s
         else
           (case controlCharTable (drop 1 input) of
              Some controlChar \<Rightarrow> s\<lparr>trace := trace s @ [Did (TermWrite [controlChar])]\<rparr>
            | None \<Rightarrow> replSession_write input written s))
      else replSession_write input written s)"

text \<open>
  One turn of the second goroutine of \<open>replSession\<close>, which owns \<open>message\<close>: a result
  taken from \<open>readChan\<close>, or the 300 ms timer. On a read error other than \<open>io.EOF\<close> it
  cancels and returns; on \<open>io.EOF\<close> it flushes, calls \<open>s.close\<close> and returns. Neither
  ends the loop over \<open>s.inputChan\<close>, which does not look at the context.
\<close>

definition replSession_result ::
    "string \<Rightarrow> error option \<Rightarrow> string \<Rightarrow> Session \<Rightarrow> Session" where
  "replSession_result bytes err message s =
     (if err \<noteq> None \<and> err \<noteq> Some EOF then s\<lparr>phase := InReplSession False message\<rparr>
      else
        (let message1 = (if length bytes > 0 then message @ ReplaceAllString bytes else message);
             s1 = (if length message1 > maxMessageLength then sendCode message1 s else s);
             message2 = (if length message1 > maxMessageLength then [] else message1)
         in if err = Some EOF then
              (close ''REPL exited. Terminating session''
                 (if length message2 > 0 then sendCode message2 s1 else s1))
                \<lparr>phase := InReplSession False message2\<rparr>
            else s1\<lparr>phase := InReplSession True message2\<rparr>))"

definition replSession_timer :: "string \<Rightarrow> Session \<Rightarrow> Session" where
  "replSession_timer message s =
     (if length message > 0 then (sendCode message s)\<lparr>phase := InReplSession True []\<rparr>
      else s)"

datatype session_event =
    Input string "error option"
      \<comment> \<open>a line taken from \<open>inputChan\<close>, and the result of the call to the pty it leads to\<close>
  | ReadChan string "error option"
      \<comment> \<open>a result taken from \<open>readChan\<close>: the bytes read and the error of the read\<close>
  | After300ms

fun session_step :: "Session \<Rightarrow> session_event \<Rightarrow> Session" where
  "session_step s (Input line r) =
     (case phase s of
        InInputLoop \<Rightarrow> inputLoop line r s
      | InReplSession out message \<Rightarrow> replSession_input line r s
      | InputLoopReturned \<Rightarrow> s)"
| "session_step s (ReadChan bytes err) =
     (case phase s of
        InReplSession out message \<Rightarrow> (if out then replSession_result bytes err message s else s)
      | _ \<Rightarrow> s)"
| "session_step s After300ms =
     (case phase s of
        InReplSession out message \<Rightarrow> (if out then replSession_timer message s else s)
      | _ \<Rightarrow> s)"

definition session_run :: "Session \<Rightarrow> session_event list \<Rightarrow> Session" where
  "session_run s evs = foldl session_step s evs"

text \<open>The chat messages of a trace that come after \<open>closed\<close> was set.\<close>

fun after_closed :: "action list \<Rightarrow> action list" where
  "after_closed [] = []"
| "after_closed (SetClosed # as) = as"
| "after_closed (Did c # as) = after_closed as"

fun chat_sends :: "action list \<Rightarrow> (format \<times> string) list" where
  "chat_sends [] = []"
| "chat_sends (Did (ChatSend f m) # as) = (f, m) # chat_sends as"
| "chat_sends (a # as) = chat_sends as"

section \<open>The terminal handle of \<open>util/screen.go\<close>\<close>

text \<open>
  The operating system, as far as \<open>Screen\<close> uses it: the files that exist, with their
  contents, and the names of the \<open>screen\<close> sessions that run. The field \<open>log\<close> of a
  handle is a \<open>*os.File\<close>: \<open>nil\<close> (\<open>None\<close>), or a file that is open or has been closed.
  \<open>Close\<close> on \<open>nil\<close> returns \<open>os.ErrInvalid\<close>, and on a file already closed
  \<open>os.ErrClosed\<close>.
\<close>

record os_state =
  files :: "string \<rightharpoonup> string"
  screens :: "string set"

datatype os_File = OpenFile | ClosedFile

record Screen =
  screen_id :: string
  log :: "os_File option"

text \<open>\<open>NewScreen\<close>; \<open>random\<close> is the value of \<open>RandomID(10)\<close>.\<close>

definition NewScreen :: "string \<Rightarrow> Screen" where
  "NewScreen random = \<lparr>screen_id = ''replbot.'' @ random, log = None\<rparr>"

definition logFile :: "Screen \<Rightarrow> string" where
  "logFile s = ''/tmp/'' @ screen_id s @ ''.screenlog''"

definition rcFile :: "Screen \<Rightarrow> string" where
  "rcFile s = ''/tmp/'' @ screen_id s @ ''.screenrc''"

definition regFile :: "Screen \<Rightarrow> string" where
  "regFile s = ''/dev/shm/'' @ screen_id s @ ''.reg''"

definition hardcopyFile :: "Screen \<Rightarrow> string" where
  "hardcopyFile s = ''/dev/shm/'' @ screen_id s @ ''.hardcopy''"

text \<open>
  \<open>Start\<close>. The results of its four calls to the operating system are arguments: the two
  \<open>os.WriteFile\<close>, the \<open>os.Open\<close> and the run of \<open>screen -dmS\<close>.
\<close>

record start_results =
  write_log :: "error option"
  open_log :: "error option"
  write_rc :: "error option"
  run_screen :: "error option"

definition Start :: "start_results \<Rightarrow> Screen \<Rightarrow> os_state \<Rightarrow> error option \<times> Screen \<times> os_state" where
  "Start r s os =
     (case write_log r of
        Some err \<Rightarrow> (Some err, s, os)
      | None \<Rightarrow>
          (case open_log r of
             Some err \<Rightarrow> (Some err, s\<lparr>log := None\<rparr>, os\<lparr>files := (files os)(logFile s \<mapsto> [])\<rparr>)
           | None \<Rightarrow>
               (case write_rc r of
                  Some err \<Rightarrow>
                    (Some err, s\<lparr>log := Some OpenFile\<rparr>,
                     os\<lparr>files := (files os)(logFile s \<mapsto> [])\<rparr>)
                | None \<Rightarrow>
                    (case run_screen r of
                       Some err \<Rightarrow>
                         (Some err, s\<lparr>log := Some OpenFile\<rparr>,
                          os\<lparr>files := (files os)(logFile s \<mapsto> [],
                             rcFile s \<mapsto> ''deflog on'' @ [CHR 0x0A] @ ''logfile '' @ logFile s @
                               [CHR 0x0A] @ ''logfile flush 0'' @ [CHR 0x0A] @ ''log on'' @
                               [CHR 0x0A])\<rparr>)
                     | None \<Rightarrow>
                         (None, s\<lparr>log := Some OpenFile\<rparr>,
                          os\<lparr>files := (files os)(logFile s \<mapsto> [],
                               rcFile s \<mapsto> ''deflog on'' @ [CHR 0x0A] @ ''logfile '' @ logFile s @
                                 [CHR 0x0A] @ ''logfile flush 0'' @ [CHR 0x0A] @ ''log on'' @
                                 [CHR 0x0A]),
                             screens := insert (screen_id s) (screens os)\<rparr>)))))"

definition Active :: "Screen \<Rightarrow> os_state \<Rightarrow> bool" where
  "Active s os = (screen_id s \<in> screens os)"

text \<open>\<open>s.log.Close()\<close>.\<close>

definition Close_log :: "Screen \<Rightarrow> error option \<times> Screen" where
  "Close_log s =
     (case log s of
        None \<Rightarrow> (Some ErrInvalid, s)
      | Some ClosedFile \<Rightarrow> (Some ErrClosed, s)
      | Some OpenFile \<Rightarrow> (None, s\<lparr>log := Some ClosedFile\<rparr>))"

text \<open>\<open>os.Remove\<close>, its error dropped as the deferred function of \<open>Stop\<close> drops it.\<close>

definition Remove :: "string \<Rightarrow> os_state \<Rightarrow> os_state" where
  "Remove path os = os\<lparr>files := (files os)(path := None)\<rparr>"

text \<open>
  \<open>Stop\<close>; \<open>quit\<close> is the result of the run of \<open>screen -X quit\<close>, should it be run. The
  deferred function removes the four files on every way out.
\<close>

definition Stop :: "error option \<Rightarrow> Screen \<Rightarrow> os_state \<Rightarrow> error option \<times> Screen \<times> os_state" where
  "Stop quit s os =
     (let removed = (\<lambda>os. Remove (hardcopyFile s) (Remove (regFile s)
                       (Remove (logFile s) (Remove (rcFile s) os))))
      in if Active s os then
           (case quit of
              Some err \<Rightarrow> (Some err, s, removed os)
            | None \<Rightarrow>
                (fst (Close_log s), snd (Close_log s),
                 removed (os\<lparr>screens := screens os - {screen_id s}\<rparr>)))
         else (fst (Close_log s), snd (Close_log s), removed os))"

section \<open>The dispatcher of \<open>bot/bot.go\<close>\<close>

subsection \<open>Package \<open>config\<close>\<close>

text \<open>
  The modes are Go string types (\<open>type ControlMode string\<close>): the empty string is a mode
  not set. A size is a \<open>*config.Size\<close>: \<open>None\<close> is \<open>nil\<close>.
\<close>

type_synonym ControlMode = string
type_synonym WindowMode = string
type_synonym AuthMode = string

record Size =
  Name :: string
  Width :: nat
  Height :: nat

datatype Platform = Slack | Discord

text \<open>
  Modelled from the spec: package \<open>config\<close> is not under the sources; these are its
  constants that \<open>bot.go\<close> names. The mode words are the tokens of the trigger grammar, the
  sizes are tiny = 15 x 60, small = 20 x 80, medium = 30 x 100 and large = 40 x 120 (rows
  x columns).
\<close>

definition config_Thread :: ControlMode where
  "config_Thread = ''thread''"

definition config_Channel :: ControlMode where
  "config_Channel = ''channel''"

definition config_Split :: ControlMode where
  "config_Split = ''split''"

definition config_Full :: WindowMode where
  "config_Full = ''full''"

definition config_Trim :: WindowMode where
  "config_Trim = ''trim''"

definition config_OnlyMe :: AuthMode where
  "config_OnlyMe = ''only-me''"

definition config_Everyone :: AuthMode where
  "config_Everyone = ''everyone''"

definition config_Tiny :: Size where
  "config_Tiny = \<lparr>Name = ''tiny'', Width = 60, Height = 15\<rparr>"

definition config_Small :: Size where
  "config_Small = \<lparr>Name = ''small'', Width = 80, Height = 20\<rparr>"

definition config_Medium :: Size where
  "config_Medium = \<lparr>Name = ''medium'', Width = 100, Height = 30\<rparr>"

definition config_Large :: Size where
  "config_Large = \<lparr>Name = ''large'', Width = 120, Height = 40\<rparr>"

definition config_Sizes :: "string \<rightharpoonup> Size" where
  "config_Sizes =
     [Name config_Tiny \<mapsto> config_Tiny, Name config_Small \<mapsto> config_Small,
      Name config_Medium \<mapsto> config_Medium, Name config_Large \<mapsto> config_Large]"

text \<open>
  The configuration of the bot: the fields \<open>bot.go\<close> reads, and the results of the
  methods it calls (\<open>Platform()\<close>, \<open>ShareEnabled()\<close>, \<open>Script(name)\<close>, which is the empty
  string for a name that is no script).
\<close>

record Config =
  DefaultControlMode :: ControlMode
  DefaultWindowMode :: WindowMode
  DefaultAuthMode :: AuthMode
  DefaultSize :: "Size option"
  Platform :: Platform
  ShareEnabled :: bool
  Script :: "string \<Rightarrow> string"

subsection \<open>Events, session configurations and sessions\<close>

datatype channelType = channelTypeUnknown | channelTypeChannel | channelTypeDM

record messageEvent =
  ID :: string
  Channel :: string
  ChannelType :: channelType
  Thread :: string
  User :: string
  Message :: string

text \<open>The fields of \<open>sessionConfig\<close> that \<open>parseSessionConfig\<close> and its callees set.\<close>

record sessionConfig =
  conf_User :: string
  conf_Script :: string
  ControlMode :: ControlMode
  WindowMode :: WindowMode
  AuthMode :: AuthMode
  Size :: "Size option"
  RelayPort :: int

text \<open>
  Modelled from the spec: the struct \<open>session\<close> and its methods \<open>Active\<close>, \<open>UserInput\<close>
  and \<open>RegisterShareConn\<close> are not under the sources; \<open>bot.go\<close> reads the field
  \<open>relayPort\<close> and calls the methods. A session has its configuration (with the owning
  user and the auth mode), the relay port, whether it is active, the lines delivered to
  its input channel (each with its author) and the time of the last activity.
\<close>

record session =
  session_conf :: sessionConfig
  relayPort :: int
  active :: bool
  userInputChan :: "(string \<times> string) list"
  lastActivity :: nat

text \<open>
  Modelled from the spec: \<open>session.Active\<close>, whether the session is active; the model
  keeps it as the field \<open>active\<close>.
\<close>

definition session_Active :: "session \<Rightarrow> bool" where
  "session_Active sess = active sess"

text \<open>
  Modelled from the spec: \<open>session.UserInput\<close>, the first rule of the input router. If the
  auth mode is only-me, a line whose author is not the session owner is dropped silently;
  everyone accepts all chat users. Every accepted line refreshes the last activity and is
  delivered to the input channel, in arrival order.
\<close>

definition UserInput :: "nat \<Rightarrow> session \<Rightarrow> string \<Rightarrow> string \<Rightarrow> session" where
  "UserInput now sess user message =
     (if AuthMode (session_conf sess) = config_OnlyMe \<and>
         user \<noteq> conf_User (session_conf sess) then sess
      else sess\<lparr>userInputChan := userInputChan sess @ [(user, message)],
                lastActivity := now\<rparr>)"

record Bot =
  config :: Config
  MentionBot :: string
  sessions :: "string \<rightharpoonup> session"

subsection \<open>Forwarding a message to its session\<close>

text \<open>
  \<open>maybeForwardMessage\<close>. \<open>util.SanitizeNonAlphanumeric\<close> is not under the sources and is
  an argument; \<open>now\<close> is the time of the call.
\<close>

definition maybeForwardMessage ::
    "(string \<Rightarrow> string) \<Rightarrow> nat \<Rightarrow> Bot \<Rightarrow> messageEvent \<Rightarrow> bool \<times> Bot" where
  "maybeForwardMessage SanitizeNonAlphanumeric now b ev =
     (case sessions b (SanitizeNonAlphanumeric (Channel ev @ ''_'' @ Thread ev)) of
        None \<Rightarrow> (False, b)
      | Some sess \<Rightarrow>
          if session_Active sess then
            (True,
             b\<lparr>sessions := (sessions b)
                  (SanitizeNonAlphanumeric (Channel ev @ ''_'' @ Thread ev) \<mapsto>
                     UserInput now sess (User ev) (Message ev))\<rparr>)
          else (False, b))"

subsection \<open>Parsing a trigger message\<close>

text \<open>
  \<open>strings.Fields\<close> splits at every run of white space, \<open>unicode.IsSpace\<close>: the bytes
  0x09 to 0x0D and the space, and in UTF-8 the code points U+0085, U+00A0, U+1680, U+2000
  to U+200A, U+2028, U+2029, U+202F, U+205F and U+3000. \<open>spaceLen\<close> is the number of
  bytes of the white space at the head of a string, 0 when there is none; a lead byte of
  UTF-8 is never part of the character before it, so the bytes can be matched in place.
\<close>

fun spaceLen :: "string \<Rightarrow> nat" where
  "spaceLen [] = 0"
| "spaceLen (c # cs) =
     (if c = CHR '' '' \<or> (9 \<le> (of_char c :: nat) \<and> (of_char c :: nat) \<le> 13) then 1
      else if c = CHR 0xC2 then
        (case cs of
           c1 # _ \<Rightarrow> if c1 = CHR 0x85 \<or> c1 = CHR 0xA0 then 2 else 0
         | [] \<Rightarrow> 0)
      else if c = CHR 0xE1 then
        (case cs of
           c1 # c2 # _ \<Rightarrow> if c1 = CHR 0x9A \<and> c2 = CHR 0x80 then 3 else 0
         | _ \<Rightarrow> 0)
      else if c = CHR 0xE2 then
        (case cs of
           c1 # c2 # _ \<Rightarrow>
             if (c1 = CHR 0x80 \<and>
                 ((0x80 \<le> (of_char c2 :: nat) \<and> (of_char c2 :: nat) \<le> 0x8A) \<or>
                  c2 = CHR 0xA8 \<or> c2 = CHR 0xA9 \<or> c2 = CHR 0xAF)) \<or>
                (c1 = CHR 0x81 \<and> c2 = CHR 0x9F)
             then 3 else 0
         | _ \<Rightarrow> 0)
      else if c = CHR 0xE3 then
        (case cs of
           c1 # c2 # _ \<Rightarrow> if c1 = CHR 0x80 \<and> c2 = CHR 0x80 then 3 else 0
         | _ \<Rightarrow> 0)
      else 0)"

text \<open>
  \<open>Fields_from skip word s\<close>: \<open>word\<close> is the field being read, and \<open>skip\<close> the number
  of bytes of \<open>s\<close> still to drop as the rest of a white space of several bytes.
\<close>

fun Fields_from :: "nat \<Rightarrow> string \<Rightarrow> string \<Rightarrow> string list" where
  "Fields_from skip word [] = (if word = [] then [] else [word])"
| "Fields_from skip word (c # cs) =
     (if skip > 0 then Fields_from (skip - 1) word cs
      else if spaceLen (c # cs) > 0 then
        (if word = [] then Fields_from (spaceLen (c # cs) - 1) [] cs
         else word # Fields_from (spaceLen (c # cs) - 1) [] cs)
      else Fields_from 0 (word @ [c]) cs)"

definition Fields :: "string \<Rightarrow> string list" where
  "Fields s = Fields_from 0 [] s"

definition shareCommand :: string where
  "shareCommand = ''share''"

definition shareServerScriptFile :: string where
  "shareServerScriptFile = ''/tmp/replbot_share_server.sh''"

text \<open>
  The loop of \<open>parseSessionConfig\<close> over the fields, one turn per field, the cases of the
  \<open>switch\<close> in their order. \<open>RandomPort\<close> gives the result of each call of
  \<open>util.RandomPort()\<close>, by the number of the calls made before.
\<close>

fun parseFields ::
    "Bot \<Rightarrow> (nat \<Rightarrow> error + int) \<Rightarrow> nat \<Rightarrow> string list \<Rightarrow> sessionConfig \<Rightarrow>
     error + sessionConfig" where
  "parseFields b RandomPort n [] conf = Inr conf"
| "parseFields b RandomPort n (field # fs) conf =
     (if field = MentionBot b then parseFields b RandomPort n fs conf
      else if field = config_Thread \<or> field = config_Channel \<or> field = config_Split then
        parseFields b RandomPort n fs (conf\<lparr>ControlMode := field\<rparr>)
      else if field = config_Full \<or> field = config_Trim then
        parseFields b RandomPort n fs (conf\<lparr>WindowMode := field\<rparr>)
      else if field = config_OnlyMe \<or> field = config_Everyone then
        parseFields b RandomPort n fs (conf\<lparr>AuthMode := field\<rparr>)
      else if field = Name config_Tiny \<or> field = Name config_Small \<or>
              field = Name config_Medium \<or> field = Name config_Large then
        parseFields b RandomPort n fs (conf\<lparr>Size := config_Sizes field\<rparr>)
      else if ShareEnabled (config b) \<and> field = shareCommand then
        (case RandomPort n of
           Inl err \<Rightarrow> Inl err
         | Inr port \<Rightarrow>
             parseFields b RandomPort (Suc n) fs
               (conf\<lparr>conf_Script := shareServerScriptFile, RelayPort := port,
                  AuthMode := (if AuthMode conf = [] then config_OnlyMe else AuthMode conf)\<rparr>))
      else if conf_Script conf = [] \<and> Script (config b) field \<noteq> [] then
        parseFields b RandomPort n fs (conf\<lparr>conf_Script := Script (config b) field\<rparr>)
      else Inl (errUnknownCommand field))"

definition applySessionConfigDefaults ::
    "Bot \<Rightarrow> messageEvent \<Rightarrow> sessionConfig \<Rightarrow> error + sessionConfig" where
  "applySessionConfigDefaults b ev conf0 =
     (let conf1 =
            (if ControlMode conf0 = [] then
               (if Thread ev \<noteq> [] then conf0\<lparr>ControlMode := config_Thread\<rparr>
                else conf0\<lparr>ControlMode := DefaultControlMode (config b)\<rparr>)
             else conf0);
          conf2 =
            (if Platform (config b) = Discord \<and> ChannelType ev = channelTypeDM \<and>
                ControlMode conf1 \<noteq> config_Channel
             then conf1\<lparr>ControlMode := config_Channel\<rparr> else conf1);
          conf3 =
            (if WindowMode conf2 = [] then
               (if ControlMode conf2 = config_Thread then conf2\<lparr>WindowMode := config_Trim\<rparr>
                else conf2\<lparr>WindowMode := DefaultWindowMode (config b)\<rparr>)
             else conf2);
          conf4 =
            (if AuthMode conf3 = [] then conf3\<lparr>AuthMode := DefaultAuthMode (config b)\<rparr>
             else conf3);
          conf5 =
            (if Size conf4 = None then
               (if ControlMode conf4 = config_Thread then conf4\<lparr>Size := Some config_Tiny\<rparr>
                else conf4\<lparr>Size := DefaultSize (config b)\<rparr>)
             else conf4)
      in Inr conf5)"

definition parseSessionConfig ::
    "Bot \<Rightarrow> (nat \<Rightarrow> error + int) \<Rightarrow> messageEvent \<Rightarrow> error + sessionConfig" where
  "parseSessionConfig b RandomPort ev =
     (case parseFields b RandomPort 0 (Fields (Message ev))
             \<lparr>conf_User = User ev, conf_Script = [], ControlMode = [], WindowMode = [],
              AuthMode = [], Size = None, RelayPort = 0\<rparr> of
        Inl err \<Rightarrow> Inl err
      | Inr conf \<Rightarrow>
          if conf_Script conf = [] then Inl errNoScript
          else applySessionConfigDefaults b ev conf)"

text \<open>The size tokens and the window-mode tokens, as the \<open>switch\<close> of the loop lists them.\<close>

definition isSizeToken :: "string \<Rightarrow> bool" where
  "isSizeToken field =
     (field = Name config_Tiny \<or> field = Name config_Small \<or>
      field = Name config_Medium \<or> field = Name config_Large)"

definition isWindowToken :: "string \<Rightarrow> bool" where
  "isWindowToken field = (field = config_Full \<or> field = config_Trim)"

subsection \<open>The share server\<close>

text \<open>
  \<open>sshReversePortForwardingCallback\<close>. The context holds the user name and, under
  \<open>ssh.ContextKeyConn\<close>, the server connection (\<open>None\<close> when the value is no
  \<open>*gossh.ServerConn\<close>). \<open>RegisterShareConn\<close> is not under the sources and is an
  argument. The result is \<open>allow\<close>, the connections closed and the bot.
\<close>

type_synonym conn = nat

record ssh_Context =
  ctx_User :: string
  ctx_Conn :: "conn option"

definition sshReversePortForwardingCallback ::
    "(conn \<Rightarrow> session \<Rightarrow> bool \<times> session) \<Rightarrow> Bot \<Rightarrow> ssh_Context \<Rightarrow> string \<Rightarrow> 32 word \<Rightarrow>
     bool \<times> conn list \<times> Bot" where
  "sshReversePortForwardingCallback RegisterShareConn b ctx host port =
     (case ctx_Conn ctx of
        None \<Rightarrow> (False, [], b)
      | Some conn \<Rightarrow>
          (if port < 1024 \<or> (host \<noteq> ''localhost'' \<and> host \<noteq> ''127.0.0.1'') then
             (False, [conn], b)
           else
             (case sessions b (ctx_User ctx) of
                None \<Rightarrow> (False, [conn], b)
              | Some sess \<Rightarrow>
                  if uint port \<noteq> relayPort sess then (False, [conn], b)
                  else if fst (RegisterShareConn conn sess) then
                    (True, [],
                     b\<lparr>sessions := (sessions b)
                          (ctx_User ctx \<mapsto> snd (RegisterShareConn conn sess))\<rparr>)
                  else
                    (False, [conn],
                     b\<lparr>sessions := (sessions b)
                          (ctx_User ctx \<mapsto> snd (RegisterShareConn conn sess))\<rparr>))))"

section \<open>Properties of the input router\<close>

lemma controlCharTable_dom:
  "dom controlCharTable = {''r'', ''ret'', ''ctrl-c'', ''ctrl-d''}"
  by (auto simp: controlCharTable_def split: if_splits)

text \<open>
  C10: for the empty line, \<open>handleUserInput\<close> evaluates \<open>input[1:]\<close> on a string of length
  zero and panics instead of returning; this holds for the router of \<open>session.go\<close> and,
  whenever the comment prefix is not the empty string, for the one of \<open>bot/repl.go\<close>.
\<close>

theorem handleUserInput_empty_panics:
  "handleUserInput w [] = Panic \<and>
   (commentPrefix \<noteq> [] \<longrightarrow> repl_handleUserInput commentPrefix w [] = Panic)"
  by (simp add: handleUserInput_def repl_handleUserInput_def helpCommand_def exitCommand_def
      slice_from_def HasPrefix_def)

theorem handleUserInput_empty_panics_witness:
  "''#'' \<noteq> [] \<and> handleUserInput \<lparr>send_result = None, write_result = None\<rparr> [] = Panic \<and>
   repl_handleUserInput ''#'' \<lparr>send_result = None, write_result = None\<rparr> [] = Panic"
  using handleUserInput_empty_panics
    [of "\<lparr>send_result = None, write_result = None\<rparr>" "''#''"]
  by simp

text \<open>
  C4: the alias table maps \<open>ctrl-c\<close> to 0x03 and \<open>ctrl-d\<close> to 0x04, but it maps \<open>r\<close> and
  \<open>ret\<close> to 0x10 and not to the newline byte 0x0A: for the lines \<open>!r\<close> and \<open>!ret\<close> the
  single byte written to the terminal is 0x10.
\<close>

theorem controlCharTable_ret_is_0x10:
  "controlCharTable ''ctrl-c'' = Some 0x03 \<and> controlCharTable ''ctrl-d'' = Some 0x04 \<and>
   controlCharTable ''r'' = Some 0x10 \<and> controlCharTable ''ret'' = Some 0x10 \<and>
   handleUserInput w ''!r'' = Return (write_result w, [TermWrite [0x10]]) \<and>
   handleUserInput w ''!ret'' = Return (write_result w, [TermWrite [0x10]]) \<and>
   terminal_bytes [TermWrite [0x10]] \<noteq> [0x0A]"
  by (simp add: handleUserInput_def helpCommand_def exitCommand_def slice_from_def
      controlCharTable_def)

lemma repl_handleUserInput_no_comment:
  "\<not> HasPrefix input commentPrefix \<Longrightarrow>
   repl_handleUserInput commentPrefix w input = handleUserInput w input"
  by (simp add: repl_handleUserInput_def handleUserInput_def)

text \<open>
  C7, as the code has it: for every registered alias \<open>a\<close>, the prefixed line \<open>!a\<close> makes
  the router write exactly the control byte of \<open>a\<close>, and the plain line \<open>a\<close> is not
  recognised: it is written as text with a trailing newline. (The router looks up
  \<open>input[1:]\<close>, the line without its first byte, whatever that byte is.) This holds for
  the router of \<open>session.go\<close> and, for lines that are no comments, for the one of
  \<open>bot/repl.go\<close>.
\<close>

theorem handleUserInput_alias_needs_prefix:
  "a \<in> dom controlCharTable \<Longrightarrow>
   handleUserInput w (''!'' @ a) =
     Return (write_result w, [TermWrite [the (controlCharTable a)]]) \<and>
   handleUserInput w a = Return (write_result w, [TermWriteString (a @ [CHR 0x0A])]) \<and>
   (\<not> HasPrefix (''!'' @ a) commentPrefix \<and> \<not> HasPrefix a commentPrefix \<longrightarrow>
      repl_handleUserInput commentPrefix w (''!'' @ a) =
        Return (write_result w, [TermWrite [the (controlCharTable a)]]) \<and>
      repl_handleUserInput commentPrefix w a =
        Return (write_result w, [TermWriteString (a @ [CHR 0x0A])]))"
proof -
  assume a: "a \<in> dom controlCharTable"
  have 1: "handleUserInput w (''!'' @ a) =
      Return (write_result w, [TermWrite [the (controlCharTable a)]])"
    using a unfolding controlCharTable_dom
    by (auto simp add: handleUserInput_def helpCommand_def exitCommand_def slice_from_def
        controlCharTable_def)
  have 2: "handleUserInput w a = Return (write_result w, [TermWriteString (a @ [CHR 0x0A])])"
    using a unfolding controlCharTable_dom
    by (auto simp add: handleUserInput_def helpCommand_def exitCommand_def slice_from_def
        controlCharTable_def)
  show ?thesis
    using 1 2 by (simp add: repl_handleUserInput_no_comment)
qed

theorem handleUserInput_alias_needs_prefix_witness:
  "''ctrl-c'' \<in> dom controlCharTable \<and>
   \<not> HasPrefix ''!ctrl-c'' ''#'' \<and> \<not> HasPrefix ''ctrl-c'' ''#'' \<and>
   handleUserInput \<lparr>send_result = None, write_result = None\<rparr> ''!ctrl-c'' =
     Return (None, [TermWrite [0x03]]) \<and>
   handleUserInput \<lparr>send_result = None, write_result = None\<rparr> ''ctrl-c'' =
     Return (None, [TermWriteString ''ctrl-c\<newline>'']) \<and>
   repl_handleUserInput ''#'' \<lparr>send_result = None, write_result = None\<rparr> ''!ctrl-c'' =
     Return (None, [TermWrite [0x03]]) \<and>
   repl_handleUserInput ''#'' \<lparr>send_result = None, write_result = None\<rparr> ''ctrl-c'' =
     Return (None, [TermWriteString ''ctrl-c\<newline>''])"
  using handleUserInput_alias_needs_prefix
    [of "''ctrl-c''" "\<lparr>send_result = None, write_result = None\<rparr>" "''#''"]
  by (simp add: controlCharTable_def HasPrefix_def)

theorem handleUserInput_plain_alias_counterexample:
  "handleUserInput \<lparr>send_result = None, write_result = None\<rparr> ''r'' =
     Return (None, [TermWriteString ''r\<newline>'']) \<and>
   handleUserInput \<lparr>send_result = None, write_result = None\<rparr> ''!r'' =
     Return (None, [TermWrite [0x10]]) \<and>
   repl_handleUserInput ''#'' \<lparr>send_result = None, write_result = None\<rparr> ''r'' =
     Return (None, [TermWriteString ''r\<newline>'']) \<and>
   repl_handleUserInput ''#'' \<lparr>send_result = None, write_result = None\<rparr> ''!r'' =
     Return (None, [TermWrite [0x10]]) \<and>
   terminal_bytes [TermWriteString ''r\<newline>''] \<noteq> terminal_bytes [TermWrite [0x10]]"
  by (simp add: handleUserInput_def repl_handleUserInput_def helpCommand_def exitCommand_def
      slice_from_def controlCharTable_def byte_of_char_def HasPrefix_def)

section \<open>Properties of the output forwarder\<close>

lemma stripEscapes_plain: "ESC \<notin> set s \<Longrightarrow> stripEscapes [] s = s"
  by (induction s) auto

lemma Send_calls: "calls (snd (Send m f s)) = calls s @ [(f, m)]"
  by (simp add: Send_def split: list.splits)

lemma Send_failing:
  "outcomes s = r # rest \<Longrightarrow>
   Send m f s = (r, s\<lparr>outcomes := rest, calls := calls s @ [(f, m)]\<rparr>)"
  by (simp add: Send_def)

lemma forwarder_burst:
  "length (message @ concat (map ReplaceAllString chunks)) \<le> maxMessageLength \<Longrightarrow>
   commandOutputForwarder (map OutChan chunks @ evs) message s =
   commandOutputForwarder evs (message @ concat (map ReplaceAllString chunks)) s"
  by (induction chunks arbitrary: message) auto

lemma forwarder_step_calls:
  "length (calls (snd (snd (commandOutputForwarder [ev] message s)))) \<le> Suc (length (calls s))"
proof (cases ev)
  case (OutChan result)
  then show ?thesis
    using Send_calls [of "message @ ReplaceAllString result" Code s]
    by (cases "Send (message @ ReplaceAllString result) Code s") (auto split: option.splits)
next
  case TimeAfter
  then show ?thesis
    using Send_calls [of message Code s]
    by (cases "Send message Code s") (auto split: option.splits)
next
  case CtxDone
  then show ?thesis
    using Send_calls [of message Code s]
    by (cases "Send message Code s") (auto split: option.splits)
qed

text \<open>
  C6, as the code has it: a chat send that fails while the forwarder flushes its buffer
  (on the timer, on overflow of the buffer, or on the final flush) ends the forwarder:
  it returns the error of the send at once, whatever events follow, and the buffer is
  not sent again.
\<close>

theorem commandOutputForwarder_send_failure_returns:
  assumes "outcomes s = Some e # rest"
  shows "(message \<noteq> [] \<longrightarrow>
            commandOutputForwarder (TimeAfter # evs) message s =
              (Some e, message, s\<lparr>outcomes := rest, calls := calls s @ [(Code, message)]\<rparr>)) \<and>
         (message \<noteq> [] \<longrightarrow>
            commandOutputForwarder (CtxDone # evs) message s =
              (Some e, message, s\<lparr>outcomes := rest, calls := calls s @ [(Code, message)]\<rparr>)) \<and>
         (length (message @ ReplaceAllString result) > maxMessageLength \<longrightarrow>
            commandOutputForwarder (OutChan result # evs) message s =
              (Some e, message @ ReplaceAllString result,
               s\<lparr>outcomes := rest,
                 calls := calls s @ [(Code, message @ ReplaceAllString result)]\<rparr>))"
  using assms by (simp add: Send_failing)

theorem commandOutputForwarder_send_failure_returns_witness:
  "outcomes \<lparr>outcomes = [Some errIO], calls = []\<rparr> = Some errIO # [] \<and> ''hi'' \<noteq> [] \<and>
   commandOutputForwarder [TimeAfter, TimeAfter] ''hi'' \<lparr>outcomes = [Some errIO], calls = []\<rparr> =
     (Some errIO, ''hi'', \<lparr>outcomes = [], calls = [(Code, ''hi'')]\<rparr>) \<and>
   commandOutputForwarder [CtxDone, TimeAfter] ''hi'' \<lparr>outcomes = [Some errIO], calls = []\<rparr> =
     (Some errIO, ''hi'', \<lparr>outcomes = [], calls = [(Code, ''hi'')]\<rparr>) \<and>
   length (''hi'' @ ReplaceAllString (replicate 511 CHR ''x'')) > maxMessageLength \<and>
   commandOutputForwarder [OutChan (replicate 511 CHR ''x''), TimeAfter] ''hi''
       \<lparr>outcomes = [Some errIO], calls = []\<rparr> =
     (Some errIO, ''hi'' @ replicate 511 CHR ''x'',
      \<lparr>outcomes = [], calls = [(Code, ''hi'' @ replicate 511 CHR ''x'')]\<rparr>)"
  using commandOutputForwarder_send_failure_returns
    [of "\<lparr>outcomes = [Some errIO], calls = []\<rparr>" errIO "[]" "''hi''" "[TimeAfter]"
      "replicate 511 CHR ''x''"]
  by (simp add: ReplaceAllString_def stripEscapes_plain ESC_def maxMessageLength_def)

theorem commandOutputForwarder_no_retry_counterexample:
  "commandOutputForwarder [OutChan ''hi'', TimeAfter, OutChan ''more'', TimeAfter] []
      \<lparr>outcomes = [Some errIO], calls = []\<rparr> =
   (Some errIO, ''hi'', \<lparr>outcomes = [], calls = [(Code, ''hi'')]\<rparr>)"
  by (simp add: ReplaceAllString_def stripEscapes_plain ESC_def maxMessageLength_def Send_def)

text \<open>
  C9, as the code has it: every turn of the loop (a chunk received, the timer, the
  cancellation) posts at most one chat message, and the chunks that arrive before the
  timer fires are coalesced into one send as long as the buffer holds at most
  \<open>maxMessageLength\<close> = 512 bytes; a chunk that takes the buffer beyond 512 bytes is
  posted at once, without waiting for the timer.
\<close>

theorem commandOutputForwarder_coalesces_below_limit:
  "(length (message @ concat (map ReplaceAllString chunks)) \<le> maxMessageLength \<longrightarrow>
      commandOutputForwarder (map OutChan chunks @ TimeAfter # evs) message s =
        commandOutputForwarder (TimeAfter # evs)
          (message @ concat (map ReplaceAllString chunks)) s \<and>
      commandOutputForwarder (map OutChan chunks) message s =
        (None, message @ concat (map ReplaceAllString chunks), s)) \<and>
   (length (message @ ReplaceAllString result) > maxMessageLength \<longrightarrow>
      calls (snd (snd (commandOutputForwarder [OutChan result] message s))) =
        calls s @ [(Code, message @ ReplaceAllString result)]) \<and>
   length (calls (snd (snd (commandOutputForwarder [ev] message s)))) \<le> Suc (length (calls s))"
proof (intro conjI impI)
  assume h: "length (message @ concat (map ReplaceAllString chunks)) \<le> maxMessageLength"
  show "commandOutputForwarder (map OutChan chunks @ TimeAfter # evs) message s =
        commandOutputForwarder (TimeAfter # evs)
          (message @ concat (map ReplaceAllString chunks)) s"
    using h by (rule forwarder_burst)
  show "commandOutputForwarder (map OutChan chunks) message s =
        (None, message @ concat (map ReplaceAllString chunks), s)"
    using forwarder_burst [OF h, of "[]" s] by simp
next
  assume "maxMessageLength < length (message @ ReplaceAllString result)"
  then show "calls (snd (snd (commandOutputForwarder [OutChan result] message s))) =
        calls s @ [(Code, message @ ReplaceAllString result)]"
    using Send_calls [of "message @ ReplaceAllString result" Code s]
    by (cases "Send (message @ ReplaceAllString result) Code s") (auto split: option.splits)
next
  show "length (calls (snd (snd (commandOutputForwarder [ev] message s)))) \<le> Suc (length (calls s))"
    by (rule forwarder_step_calls)
qed

theorem commandOutputForwarder_coalesces_below_limit_witness:
  "length ([] @ concat (map ReplaceAllString [''ab'', ''cd''])) \<le> maxMessageLength \<and>
   commandOutputForwarder (map OutChan [''ab'', ''cd''] @ [TimeAfter]) []
       \<lparr>outcomes = [], calls = []\<rparr> =
     (None, [], \<lparr>outcomes = [], calls = [(Code, ''abcd'')]\<rparr>) \<and>
   length (''abc'' @ ReplaceAllString (replicate 510 CHR ''x'')) > maxMessageLength \<and>
   calls (snd (snd (commandOutputForwarder [OutChan (replicate 510 CHR ''x'')] ''abc''
       \<lparr>outcomes = [], calls = []\<rparr>))) = [(Code, ''abc'' @ replicate 510 CHR ''x'')]"
  using commandOutputForwarder_coalesces_below_limit
    [of "[]" "[''ab'', ''cd'']" "[]" "\<lparr>outcomes = [], calls = []\<rparr>"]
    commandOutputForwarder_coalesces_below_limit
    [of "''abc''" "[]" "[]" "\<lparr>outcomes = [], calls = []\<rparr>" "replicate 510 CHR ''x''"]
  by (simp add: ReplaceAllString_def stripEscapes_plain ESC_def maxMessageLength_def Send_def)

theorem commandOutputForwarder_burst_counterexample:
  "calls (snd (snd (commandOutputForwarder
      [OutChan (replicate 513 CHR ''a''), OutChan (replicate 513 CHR ''b'')] []
      \<lparr>outcomes = [], calls = []\<rparr>))) =
   [(Code, replicate 513 CHR ''a''), (Code, replicate 513 CHR ''b'')]"
  by (simp add: ReplaceAllString_def stripEscapes_plain ESC_def maxMessageLength_def Send_def)

section \<open>Properties of the session of \<open>part_001\<close>\<close>

lemmas session_defs =
  session_run_def NewSession_def sayHello_def sayExited_def sendMarkdown_def sendText_def
  sendCode_def close_def inputLoop_def replSession_input_def replSession_result_def
  replSession_timer_def replSession_write_def replSession_return_def availableREPLs_def
  HasPrefix_def controlCharTable_def maxMessageLength_def

text \<open>
  C2: in \<open>part_001\<close> a chat message is sent after \<open>closed\<close> has been set. The session is
  started, the line \<open>bash\<close> starts a REPL, the read of the pty returns \<open>io.EOF\<close> (the
  output goroutine calls \<open>s.close\<close>, which sets \<open>closed\<close>), and the next line \<open>!help\<close> is
  still answered by the loop of \<open>replSession\<close>: the help text is sent with \<open>closed\<close> set.
\<close>

theorem session_sends_after_closed:
  "closed (session_run NewSession
      [Input ''bash'' None, ReadChan [] (Some EOF), Input ''!help'' None]) \<and>
   chat_sends (after_closed (trace (session_run NewSession
      [Input ''bash'' None, ReadChan [] (Some EOF), Input ''!help'' None]))) =
     [(Markdown, availableCommandsMessage)]"
  by (simp add: session_defs)

section \<open>Properties of the terminal handle\<close>

lemmas file_defs = logFile_def rcFile_def regFile_def hardcopyFile_def

lemma Stop_screen_id: "screen_id (fst (snd (Stop q s os))) = screen_id s"
  by (simp add: Stop_def Close_log_def Let_def split: option.splits os_File.splits)

lemma Stop_files:
  "files (snd (snd (Stop q s os))) =
   (files os)(rcFile s := None, logFile s := None, regFile s := None, hardcopyFile s := None)"
  by (simp add: Stop_def Remove_def Let_def split: option.splits)

lemma Stop_ok:
  "fst (Stop q s os) = None \<Longrightarrow>
   log s = Some OpenFile \<and> log (fst (snd (Stop q s os))) = Some ClosedFile \<and>
   \<not> Active (fst (snd (Stop q s os))) (snd (snd (Stop q s os)))"
  by (auto simp add: Stop_def Close_log_def Remove_def Active_def Let_def
      split: option.splits os_File.splits if_splits)

lemma Stop_again:
  assumes "log s = Some ClosedFile" and "\<not> Active s os"
    and "files os =
      (files os)(rcFile s := None, logFile s := None, regFile s := None, hardcopyFile s := None)"
  shows "Stop q s os = (Some ErrClosed, s, os)"
proof -
  have "Remove (hardcopyFile s) (Remove (regFile s) (Remove (logFile s) (Remove (rcFile s) os))) = os"
    using assms(3) by (simp add: Remove_def)
  then show ?thesis
    using assms(1,2) by (simp add: Stop_def Close_log_def Let_def)
qed

text \<open>
  C3, as the code has it: after \<open>Stop\<close> returns (with or without an error) the rc file, the
  log file, the paste-register file and the hardcopy file of the handle are absent, and
  they are still absent after a second \<open>Stop\<close>. A second \<open>Stop\<close> after one that returned
  no error leaves the handle and the operating system unchanged, and it returns the error
  \<open>os.ErrClosed\<close> of closing the log file again.
\<close>

theorem Stop_removes_files_and_fails_again:
  "(case Stop q s os of (e1, s1, os1) \<Rightarrow>
      files os1 (rcFile s) = None \<and> files os1 (logFile s) = None \<and>
      files os1 (regFile s) = None \<and> files os1 (hardcopyFile s) = None \<and>
      (case Stop q' s1 os1 of (e2, s2, os2) \<Rightarrow>
         files os2 = files os1 \<and>
         (e1 = None \<longrightarrow> e2 = Some ErrClosed \<and> s2 = s1 \<and> os2 = os1)))"
proof -
  obtain e1 s1 os1 where 1: "Stop q s os = (e1, s1, os1)"
    by (cases "Stop q s os") auto
  obtain e2 s2 os2 where 2: "Stop q' s1 os1 = (e2, s2, os2)"
    by (cases "Stop q' s1 os1") auto
  have id1: "screen_id s1 = screen_id s"
    using Stop_screen_id [of q s os] 1 by simp
  have f1: "files os1 =
      (files os)(rcFile s := None, logFile s := None, regFile s := None, hardcopyFile s := None)"
    using Stop_files [of q s os] 1 by simp
  have names: "rcFile s1 = rcFile s" "logFile s1 = logFile s" "regFile s1 = regFile s"
      "hardcopyFile s1 = hardcopyFile s"
    using id1 by (simp_all add: file_defs)
  have f2: "files os2 =
      (files os1)(rcFile s := None, logFile s := None, regFile s := None, hardcopyFile s := None)"
    using Stop_files [of q' s1 os1] 2 names by simp
  have gone: "(files os1)(rcFile s := None, logFile s := None, regFile s := None,
      hardcopyFile s := None) = files os1"
    by (rule ext) (simp add: f1)
  have same: "files os2 = files os1"
    using f2 gone by simp
  have again: "e2 = Some ErrClosed \<and> s2 = s1 \<and> os2 = os1" if "e1 = None"
  proof -
    have "log s1 = Some ClosedFile \<and> \<not> Active s1 os1"
      using Stop_ok [of q s os] 1 that by simp
    then show ?thesis
      using Stop_again [of s1 os1 q'] gone names 2 by simp
  qed
  show ?thesis
    using 1 2 same again by (simp add: f1)
qed

theorem Stop_removes_files_and_fails_again_witness:
  "fst (Stop None \<lparr>screen_id = ''replbot.abcdefghij'', log = Some OpenFile\<rparr>
      \<lparr>files = [''/tmp/replbot.abcdefghij.screenlog'' \<mapsto> []],
       screens = {''replbot.abcdefghij''}\<rparr>) = None \<and>
   files (snd (snd (Stop None \<lparr>screen_id = ''replbot.abcdefghij'', log = Some OpenFile\<rparr>
      \<lparr>files = [''/tmp/replbot.abcdefghij.screenlog'' \<mapsto> []],
       screens = {''replbot.abcdefghij''}\<rparr>))) ''/tmp/replbot.abcdefghij.screenlog'' = None \<and>
   fst (Stop None
     (fst (snd (Stop None \<lparr>screen_id = ''replbot.abcdefghij'', log = Some OpenFile\<rparr>
        \<lparr>files = [''/tmp/replbot.abcdefghij.screenlog'' \<mapsto> []],
         screens = {''replbot.abcdefghij''}\<rparr>)))
     (snd (snd (Stop None \<lparr>screen_id = ''replbot.abcdefghij'', log = Some OpenFile\<rparr>
        \<lparr>files = [''/tmp/replbot.abcdefghij.screenlog'' \<mapsto> []],
         screens = {''replbot.abcdefghij''}\<rparr>)))) = Some ErrClosed"
  using Stop_removes_files_and_fails_again
    [where q = None and q' = None
       and s = "\<lparr>screen_id = ''replbot.abcdefghij'', log = Some OpenFile\<rparr>"
       and os = "\<lparr>files = [''/tmp/replbot.abcdefghij.screenlog'' \<mapsto> []],
         screens = {''replbot.abcdefghij''}\<rparr>"]
  by (simp add: Stop_def Active_def Close_log_def Remove_def file_defs Let_def)

theorem Stop_twice_counterexample:
  "Start \<lparr>write_log = None, open_log = None, write_rc = None, run_screen = None\<rparr>
      (NewScreen ''abcdefghij'') \<lparr>files = Map.empty, screens = {}\<rparr> =
     (None, \<lparr>screen_id = ''replbot.abcdefghij'', log = Some OpenFile\<rparr>,
      \<lparr>files = [''/tmp/replbot.abcdefghij.screenlog'' \<mapsto> [],
                ''/tmp/replbot.abcdefghij.screenrc'' \<mapsto>
                  ''deflog on\<newline>logfile /tmp/replbot.abcdefghij.screenlog\<newline>logfile flush 0\<newline>log on\<newline>''],
       screens = {''replbot.abcdefghij''}\<rparr>) \<and>
   Stop None \<lparr>screen_id = ''replbot.abcdefghij'', log = Some OpenFile\<rparr>
      \<lparr>files = [''/tmp/replbot.abcdefghij.screenlog'' \<mapsto> [],
                ''/tmp/replbot.abcdefghij.screenrc'' \<mapsto>
                  ''deflog on\<newline>logfile /tmp/replbot.abcdefghij.screenlog\<newline>logfile flush 0\<newline>log on\<newline>''],
       screens = {''replbot.abcdefghij''}\<rparr> =
     (None, \<lparr>screen_id = ''replbot.abcdefghij'', log = Some ClosedFile\<rparr>,
      \<lparr>files = Map.empty, screens = {}\<rparr>) \<and>
   Stop None \<lparr>screen_id = ''replbot.abcdefghij'', log = Some ClosedFile\<rparr>
      \<lparr>files = Map.empty, screens = {}\<rparr> =
     (Some ErrClosed, \<lparr>screen_id = ''replbot.abcdefghij'', log = Some ClosedFile\<rparr>,
      \<lparr>files = Map.empty, screens = {}\<rparr>)"
  by (simp add: Start_def NewScreen_def Stop_def Active_def Close_log_def Remove_def file_defs
      Let_def)

section \<open>Properties of the dispatcher\<close>

lemmas config_defs =
  config_Thread_def config_Channel_def config_Split_def config_Full_def config_Trim_def
  config_OnlyMe_def config_Everyone_def config_Tiny_def config_Small_def config_Medium_def
  config_Large_def

lemma parseFields_Size:
  "parseFields b rp n toks c = Inr c' \<Longrightarrow> \<not> isSizeToken (MentionBot b) \<Longrightarrow>
   Size c' = (if filter isSizeToken toks = [] then Size c
              else config_Sizes (last (filter isSizeToken toks)))"
proof (induction toks arbitrary: c n)
  case Nil
  then show ?case by simp
next
  case (Cons field toks)
  show ?case
  proof (cases "isSizeToken field")
    case True
    then have ne: "field \<noteq> MentionBot b"
      using Cons.prems(2) by auto
    from True have other:
      "\<not> (field = config_Thread \<or> field = config_Channel \<or> field = config_Split)"
      "\<not> (field = config_Full \<or> field = config_Trim)"
      "\<not> (field = config_OnlyMe \<or> field = config_Everyone)"
      by (auto simp: isSizeToken_def config_defs)
    from True have sz: "field = Name config_Tiny \<or> field = Name config_Small \<or>
        field = Name config_Medium \<or> field = Name config_Large"
      by (simp add: isSizeToken_def)
    have "parseFields b rp n toks (c\<lparr>Size := config_Sizes field\<rparr>) = Inr c'"
      using Cons.prems(1) ne other sz by simp
    from Cons.IH [OF this Cons.prems(2)] True show ?thesis by simp
  next
    case False
    then have nsz: "\<not> (field = Name config_Tiny \<or> field = Name config_Small \<or>
        field = Name config_Medium \<or> field = Name config_Large)"
      by (simp add: isSizeToken_def)
    have "\<exists>c0 n0. parseFields b rp n0 toks c0 = Inr c' \<and> Size c0 = Size c"
      using Cons.prems(1) nsz by (auto split: if_splits sum.splits)
    then obtain c0 n0 where "parseFields b rp n0 toks c0 = Inr c'" "Size c0 = Size c"
      by blast
    from Cons.IH [OF this(1) Cons.prems(2)] this(2) False show ?thesis by simp
  qed
qed

lemma parseFields_WindowMode:
  "parseFields b rp n toks c = Inr c' \<Longrightarrow> \<not> isWindowToken (MentionBot b) \<Longrightarrow>
   WindowMode c' = (if filter isWindowToken toks = [] then WindowMode c
                    else last (filter isWindowToken toks))"
proof (induction toks arbitrary: c n)
  case Nil
  then show ?case by simp
next
  case (Cons field toks)
  show ?case
  proof (cases "isWindowToken field")
    case True
    then have ne: "field \<noteq> MentionBot b"
      using Cons.prems(2) by auto
    from True have other:
      "\<not> (field = config_Thread \<or> field = config_Channel \<or> field = config_Split)"
      by (auto simp: isWindowToken_def config_defs)
    from True have w: "field = config_Full \<or> field = config_Trim"
      by (simp add: isWindowToken_def)
    have "parseFields b rp n toks (c\<lparr>WindowMode := field\<rparr>) = Inr c'"
      using Cons.prems(1) ne other w by simp
    from Cons.IH [OF this Cons.prems(2)] True show ?thesis by simp
  next
    case False
    then have nw: "\<not> (field = config_Full \<or> field = config_Trim)"
      by (simp add: isWindowToken_def)
    have "\<exists>c0 n0. parseFields b rp n0 toks c0 = Inr c' \<and> WindowMode c0 = WindowMode c"
      using Cons.prems(1) nw by (auto split: if_splits sum.splits)
    then obtain c0 n0 where "parseFields b rp n0 toks c0 = Inr c'"
        "WindowMode c0 = WindowMode c"
      by blast
    from Cons.IH [OF this(1) Cons.prems(2)] this(2) False show ?thesis by simp
  qed
qed

lemma applySessionConfigDefaults_thread:
  "applySessionConfigDefaults b ev c = Inr c' \<Longrightarrow> ControlMode c' = config_Thread \<Longrightarrow>
   WindowMode c' = (if WindowMode c = [] then config_Trim else WindowMode c) \<and>
   Size c' = (if Size c = None then Some config_Tiny else Size c)"
  by (auto simp add: applySessionConfigDefaults_def Let_def split: if_splits)

lemma config_Sizes_token: "isSizeToken f \<Longrightarrow> config_Sizes f \<noteq> None"
  by (auto simp: isSizeToken_def config_Sizes_def)

lemma last_filter: "filter P xs \<noteq> [] \<Longrightarrow> P (last (filter P xs))"
  using last_in_set [of "filter P xs"] by simp

text \<open>
  C8: for every trigger message that parses to a session configuration whose control mode
  is thread (the mention of the bot not being itself a size or window-mode word): if the
  message has no size token the size is tiny, and otherwise it is the size of the (last)
  size token given; if the message has no window-mode token the window mode is trim, and
  otherwise it is the (last) window-mode token given.
\<close>

theorem parseSessionConfig_thread_defaults:
  assumes "parseSessionConfig b RandomPort ev = Inr conf"
    and "ControlMode conf = config_Thread"
    and "\<not> isSizeToken (MentionBot b)" and "\<not> isWindowToken (MentionBot b)"
  shows "Size conf =
           (if filter isSizeToken (Fields (Message ev)) = [] then Some config_Tiny
            else config_Sizes (last (filter isSizeToken (Fields (Message ev))))) \<and>
         WindowMode conf =
           (if filter isWindowToken (Fields (Message ev)) = [] then config_Trim
            else last (filter isWindowToken (Fields (Message ev))))"
proof -
  let ?c0 = "\<lparr>conf_User = User ev, conf_Script = [], ControlMode = [], WindowMode = [],
              AuthMode = [], Size = None, RelayPort = 0\<rparr>"
  obtain c where p: "parseFields b RandomPort 0 (Fields (Message ev)) ?c0 = Inr c"
    and d: "applySessionConfigDefaults b ev c = Inr conf"
    using assms(1) by (auto simp: parseSessionConfig_def split: sum.splits if_splits)
  have s: "Size c = (if filter isSizeToken (Fields (Message ev)) = [] then None
              else config_Sizes (last (filter isSizeToken (Fields (Message ev)))))"
    using parseFields_Size [OF p assms(3)] by simp
  have w: "WindowMode c = (if filter isWindowToken (Fields (Message ev)) = [] then []
              else last (filter isWindowToken (Fields (Message ev))))"
    using parseFields_WindowMode [OF p assms(4)] by simp
  have wne: "filter isWindowToken (Fields (Message ev)) \<noteq> [] \<Longrightarrow>
        last (filter isWindowToken (Fields (Message ev))) \<noteq> []"
    using last_filter [of isWindowToken "Fields (Message ev)"]
    by (auto simp: isWindowToken_def config_defs)
  have sne: "filter isSizeToken (Fields (Message ev)) \<noteq> [] \<Longrightarrow>
        config_Sizes (last (filter isSizeToken (Fields (Message ev)))) \<noteq> None"
    using last_filter [of isSizeToken "Fields (Message ev)"] config_Sizes_token by blast
  show ?thesis
  proof (intro conjI)
    show "Size conf =
           (if filter isSizeToken (Fields (Message ev)) = [] then Some config_Tiny
            else config_Sizes (last (filter isSizeToken (Fields (Message ev)))))"
      using applySessionConfigDefaults_thread [OF d assms(2)] s sne
      by (cases "filter isSizeToken (Fields (Message ev)) = []") simp_all
    show "WindowMode conf =
           (if filter isWindowToken (Fields (Message ev)) = [] then config_Trim
            else last (filter isWindowToken (Fields (Message ev))))"
      using applySessionConfigDefaults_thread [OF d assms(2)] w wne
      by (cases "filter isWindowToken (Fields (Message ev)) = []") simp_all
  qed
qed

theorem parseSessionConfig_thread_defaults_witness:
  "parseSessionConfig
      \<lparr>config = \<lparr>DefaultControlMode = config_Split, DefaultWindowMode = config_Full,
          DefaultAuthMode = config_Everyone, DefaultSize = Some config_Medium,
          Platform = Slack, ShareEnabled = False,
          Script = (\<lambda>name. if name = ''bash'' then ''/etc/replbot/script.d/bash'' else [])\<rparr>,
        MentionBot = ''@replbot'', sessions = Map.empty\<rparr>
      (\<lambda>n. Inl errIO)
      \<lparr>ID = ''1'', Channel = ''C1'', ChannelType = channelTypeChannel, Thread = [],
        User = ''U1'', Message = ''@replbot bash thread''\<rparr> =
     Inr \<lparr>conf_User = ''U1'', conf_Script = ''/etc/replbot/script.d/bash'',
          ControlMode = ''thread'', WindowMode = ''trim'', AuthMode = ''everyone'',
          Size = Some config_Tiny, RelayPort = 0\<rparr> \<and>
   \<not> isSizeToken ''@replbot'' \<and> \<not> isWindowToken ''@replbot'' \<and>
   filter isSizeToken (Fields ''@replbot bash thread'') = [] \<and>
   filter isWindowToken (Fields ''@replbot bash thread'') = [] \<and>
   parseSessionConfig
      \<lparr>config = \<lparr>DefaultControlMode = config_Split, DefaultWindowMode = config_Full,
          DefaultAuthMode = config_Everyone, DefaultSize = Some config_Medium,
          Platform = Slack, ShareEnabled = False,
          Script = (\<lambda>name. if name = ''bash'' then ''/etc/replbot/script.d/bash'' else [])\<rparr>,
        MentionBot = ''@replbot'', sessions = Map.empty\<rparr>
      (\<lambda>n. Inl errIO)
      \<lparr>ID = ''1'', Channel = ''C1'', ChannelType = channelTypeChannel, Thread = [],
        User = ''U1'', Message = ''@replbot large bash full thread''\<rparr> =
     Inr \<lparr>conf_User = ''U1'', conf_Script = ''/etc/replbot/script.d/bash'',
          ControlMode = ''thread'', WindowMode = ''full'', AuthMode = ''everyone'',
          Size = Some config_Large, RelayPort = 0\<rparr> \<and>
   config_Sizes (last (filter isSizeToken (Fields ''@replbot large bash full thread''))) =
     Some config_Large \<and>
   last (filter isWindowToken (Fields ''@replbot large bash full thread'')) = config_Full"
proof -
  let ?b = "\<lparr>config = \<lparr>DefaultControlMode = config_Split, DefaultWindowMode = config_Full,
          DefaultAuthMode = config_Everyone, DefaultSize = Some config_Medium,
          Platform = Slack, ShareEnabled = False,
          Script = (\<lambda>name. if name = ''bash'' then ''/etc/replbot/script.d/bash'' else [])\<rparr>,
        MentionBot = ''@replbot'', sessions = Map.empty\<rparr>"
  let ?ev1 = "\<lparr>ID = ''1'', Channel = ''C1'', ChannelType = channelTypeChannel, Thread = [],
        User = ''U1'', Message = ''@replbot bash thread''\<rparr>"
  let ?ev2 = "\<lparr>ID = ''1'', Channel = ''C1'', ChannelType = channelTypeChannel, Thread = [],
        User = ''U1'', Message = ''@replbot large bash full thread''\<rparr>"
  let ?c1 = "\<lparr>conf_User = ''U1'', conf_Script = ''/etc/replbot/script.d/bash'',
          ControlMode = ''thread'', WindowMode = ''trim'', AuthMode = ''everyone'',
          Size = Some config_Tiny, RelayPort = 0\<rparr>"
  let ?c2 = "\<lparr>conf_User = ''U1'', conf_Script = ''/etc/replbot/script.d/bash'',
          ControlMode = ''thread'', WindowMode = ''full'', AuthMode = ''everyone'',
          Size = Some config_Large, RelayPort = 0\<rparr>"
  have m: "\<not> isSizeToken (MentionBot ?b)" "\<not> isWindowToken (MentionBot ?b)"
    by (simp_all add: isSizeToken_def isWindowToken_def config_defs)
  have p1: "parseSessionConfig ?b (\<lambda>n. Inl errIO) ?ev1 = Inr ?c1"
    by (simp add: parseSessionConfig_def Fields_def config_defs config_Sizes_def
        applySessionConfigDefaults_def shareCommand_def Let_def)
  have p2: "parseSessionConfig ?b (\<lambda>n. Inl errIO) ?ev2 = Inr ?c2"
    by (simp add: parseSessionConfig_def Fields_def config_defs config_Sizes_def
        applySessionConfigDefaults_def shareCommand_def Let_def)
  have t: "ControlMode ?c1 = config_Thread" "ControlMode ?c2 = config_Thread"
    by (simp_all add: config_defs)
  have f1: "filter isSizeToken (Fields ''@replbot bash thread'') = []"
    "filter isWindowToken (Fields ''@replbot bash thread'') = []"
    by (simp_all add: Fields_def isSizeToken_def isWindowToken_def config_defs)
  have f2: "filter isSizeToken (Fields ''@replbot large bash full thread'') = [''large'']"
    "filter isWindowToken (Fields ''@replbot large bash full thread'') = [''full'']"
    by (simp_all add: Fields_def isSizeToken_def isWindowToken_def config_defs)
  show ?thesis
    using parseSessionConfig_thread_defaults [OF p1 t(1) m]
      parseSessionConfig_thread_defaults [OF p2 t(2) m] p1 p2 m f1 f2
    by (simp add: config_defs)
qed

text \<open>
  C5, as the code has it: whenever the context of a reverse-port-forward request holds its
  server connection, the request is allowed only if the requested host is \<open>localhost\<close> or
  \<open>127.0.0.1\<close> and the user name is the id of a session in the table of the bot whose
  \<open>relayPort\<close> is exactly the requested port (a port of at least 1024); a request that is
  not allowed has its connection closed; and every request for another host, or for a port
  that is not the \<open>relayPort\<close> of the session of that name, is not allowed and its
  connection is closed. The callback looks the session up in the table and does not call
  \<open>Active\<close>, unlike \<open>maybeForwardMessage\<close>: the session need not be active.
\<close>

theorem sshReversePortForwardingCallback_only_relayPort:
  assumes "ctx_Conn ctx = Some c"
  shows "(fst (sshReversePortForwardingCallback RegisterShareConn b ctx host port) \<longrightarrow>
            (host = ''localhost'' \<or> host = ''127.0.0.1'') \<and>
            (\<exists>sess. sessions b (ctx_User ctx) = Some sess \<and> relayPort sess = uint port \<and>
                    1024 \<le> relayPort sess)) \<and>
         (\<not> fst (sshReversePortForwardingCallback RegisterShareConn b ctx host port) \<longrightarrow>
            fst (snd (sshReversePortForwardingCallback RegisterShareConn b ctx host port)) = [c]) \<and>
         ((host \<noteq> ''localhost'' \<and> host \<noteq> ''127.0.0.1'') \<or>
          (\<forall>sess. sessions b (ctx_User ctx) = Some sess \<longrightarrow> relayPort sess \<noteq> uint port) \<longrightarrow>
            \<not> fst (sshReversePortForwardingCallback RegisterShareConn b ctx host port) \<and>
            fst (snd (sshReversePortForwardingCallback RegisterShareConn b ctx host port)) = [c])"
proof -
  have le: "1024 \<le> uint port" if "\<not> port < 1024"
    using that by (simp add: word_less_def not_less)
  show ?thesis
    using assms le
    by (auto simp add: sshReversePortForwardingCallback_def split: option.splits if_splits)
qed

theorem sshReversePortForwardingCallback_only_relayPort_witness:
  "ctx_Conn \<lparr>ctx_User = ''C1_'', ctx_Conn = Some 7\<rparr> = Some 7 \<and>
   fst (sshReversePortForwardingCallback (\<lambda>conn sess. (True, sess))
      \<lparr>config = \<lparr>DefaultControlMode = config_Split, DefaultWindowMode = config_Full,
          DefaultAuthMode = config_Everyone, DefaultSize = Some config_Medium,
          Platform = Slack, ShareEnabled = False,
          Script = (\<lambda>name. if name = ''bash'' then ''/etc/replbot/script.d/bash'' else [])\<rparr>,
        MentionBot = ''@replbot'',
        sessions = [''C1_'' \<mapsto>
          \<lparr>session_conf =
            \<lparr>conf_User = ''U1'', conf_Script = ''/tmp/replbot_share_server.sh'',
             ControlMode = ''channel'', WindowMode = ''full'', AuthMode = ''only-me'',
             Size = Some config_Medium, RelayPort = 40000\<rparr>,
          relayPort = 40000, active = True, userInputChan = [], lastActivity = 0\<rparr>]\<rparr>
      \<lparr>ctx_User = ''C1_'', ctx_Conn = Some 7\<rparr> ''localhost'' 40000) \<and>
   sshReversePortForwardingCallback (\<lambda>conn sess. (True, sess))
      \<lparr>config = \<lparr>DefaultControlMode = config_Split, DefaultWindowMode = config_Full,
          DefaultAuthMode = config_Everyone, DefaultSize = Some config_Medium,
          Platform = Slack, ShareEnabled = False,
          Script = (\<lambda>name. if name = ''bash'' then ''/etc/replbot/script.d/bash'' else [])\<rparr>,
        MentionBot = ''@replbot'',
        sessions = [''C1_'' \<mapsto>
          \<lparr>session_conf =
            \<lparr>conf_User = ''U1'', conf_Script = ''/tmp/replbot_share_server.sh'',
             ControlMode = ''channel'', WindowMode = ''full'', AuthMode = ''only-me'',
             Size = Some config_Medium, RelayPort = 40000\<rparr>,
          relayPort = 40000, active = True, userInputChan = [], lastActivity = 0\<rparr>]\<rparr>
      \<lparr>ctx_User = ''C1_'', ctx_Conn = Some 7\<rparr> ''localhost'' 40001 =
     (False, [7],
      \<lparr>config = \<lparr>DefaultControlMode = config_Split, DefaultWindowMode = config_Full,
          DefaultAuthMode = config_Everyone, DefaultSize = Some config_Medium,
          Platform = Slack, ShareEnabled = False,
          Script = (\<lambda>name. if name = ''bash'' then ''/etc/replbot/script.d/bash'' else [])\<rparr>,
        MentionBot = ''@replbot'',
        sessions = [''C1_'' \<mapsto>
          \<lparr>session_conf =
            \<lparr>conf_User = ''U1'', conf_Script = ''/tmp/replbot_share_server.sh'',
             ControlMode = ''channel'', WindowMode = ''full'', AuthMode = ''only-me'',
             Size = Some config_Medium, RelayPort = 40000\<rparr>,
          relayPort = 40000, active = True, userInputChan = [], lastActivity = 0\<rparr>]\<rparr>)"
  using sshReversePortForwardingCallback_only_relayPort
    [of "\<lparr>ctx_User = ''C1_'', ctx_Conn = Some 7\<rparr>" 7 "(\<lambda>conn sess. (True, sess))"
      "\<lparr>config = \<lparr>DefaultControlMode = config_Split, DefaultWindowMode = config_Full,
          DefaultAuthMode = config_Everyone, DefaultSize = Some config_Medium,
          Platform = Slack, ShareEnabled = False,
          Script = (\<lambda>name. if name = ''bash'' then ''/etc/replbot/script.d/bash'' else [])\<rparr>,
        MentionBot = ''@replbot'',
        sessions = [''C1_'' \<mapsto>
          \<lparr>session_conf =
            \<lparr>conf_User = ''U1'', conf_Script = ''/tmp/replbot_share_server.sh'',
             ControlMode = ''channel'', WindowMode = ''full'', AuthMode = ''only-me'',
             Size = Some config_Medium, RelayPort = 40000\<rparr>,
          relayPort = 40000, active = True, userInputChan = [], lastActivity = 0\<rparr>]\<rparr>"
      "''localhost''" 40000]
    sshReversePortForwardingCallback_only_relayPort
    [of "\<lparr>ctx_User = ''C1_'', ctx_Conn = Some 7\<rparr>" 7 "(\<lambda>conn sess. (True, sess))"
      "\<lparr>config = \<lparr>DefaultControlMode = config_Split, DefaultWindowMode = config_Full,
          DefaultAuthMode = config_Everyone, DefaultSize = Some config_Medium,
          Platform = Slack, ShareEnabled = False,
          Script = (\<lambda>name. if name = ''bash'' then ''/etc/replbot/script.d/bash'' else [])\<rparr>,
        MentionBot = ''@replbot'',
        sessions = [''C1_'' \<mapsto>
          \<lparr>session_conf =
            \<lparr>conf_User = ''U1'', conf_Script = ''/tmp/replbot_share_server.sh'',
             ControlMode = ''channel'', WindowMode = ''full'', AuthMode = ''only-me'',
             Size = Some config_Medium, RelayPort = 40000\<rparr>,
          relayPort = 40000, active = True, userInputChan = [], lastActivity = 0\<rparr>]\<rparr>"
      "''localhost''" 40001]
  by (simp add: sshReversePortForwardingCallback_def)

theorem sshReversePortForwardingCallback_inactive_counterexample:
  "\<not> session_Active
      \<lparr>session_conf =
            \<lparr>conf_User = ''U1'', conf_Script = ''/tmp/replbot_share_server.sh'',
             ControlMode = ''channel'', WindowMode = ''full'', AuthMode = ''only-me'',
             Size = Some config_Medium, RelayPort = 40000\<rparr>,
          relayPort = 40000, active = False, userInputChan = [], lastActivity = 0\<rparr> \<and>
   sessions
      \<lparr>config = \<lparr>DefaultControlMode = config_Split, DefaultWindowMode = config_Full,
          DefaultAuthMode = config_Everyone, DefaultSize = Some config_Medium,
          Platform = Slack, ShareEnabled = False,
          Script = (\<lambda>name. if name = ''bash'' then ''/etc/replbot/script.d/bash'' else [])\<rparr>,
        MentionBot = ''@replbot'',
        sessions = [''C1_'' \<mapsto>
          \<lparr>session_conf =
            \<lparr>conf_User = ''U1'', conf_Script = ''/tmp/replbot_share_server.sh'',
             ControlMode = ''channel'', WindowMode = ''full'', AuthMode = ''only-me'',
             Size = Some config_Medium, RelayPort = 40000\<rparr>,
          relayPort = 40000, active = False, userInputChan = [], lastActivity = 0\<rparr>]\<rparr> ''C1_'' =
     Some
          \<lparr>session_conf =
            \<lparr>conf_User = ''U1'', conf_Script = ''/tmp/replbot_share_server.sh'',
             ControlMode = ''channel'', WindowMode = ''full'', AuthMode = ''only-me'',
             Size = Some config_Medium, RelayPort = 40000\<rparr>,
          relayPort = 40000, active = False, userInputChan = [], lastActivity = 0\<rparr> \<and>
   fst (sshReversePortForwardingCallback (\<lambda>conn sess. (True, sess))
      \<lparr>config = \<lparr>DefaultControlMode = config_Split, DefaultWindowMode = config_Full,
          DefaultAuthMode = config_Everyone, DefaultSize = Some config_Medium,
          Platform = Slack, ShareEnabled = False,
          Script = (\<lambda>name. if name = ''bash'' then ''/etc/replbot/script.d/bash'' else [])\<rparr>,
        MentionBot = ''@replbot'',
        sessions = [''C1_'' \<mapsto>
          \<lparr>session_conf =
            \<lparr>conf_User = ''U1'', conf_Script = ''/tmp/replbot_share_server.sh'',
             ControlMode = ''channel'', WindowMode = ''full'', AuthMode = ''only-me'',
             Size = Some config_Medium, RelayPort = 40000\<rparr>,
          relayPort = 40000, active = False, userInputChan = [], lastActivity = 0\<rparr>]\<rparr>
      \<lparr>ctx_User = ''C1_'', ctx_Conn = Some 7\<rparr> ''localhost'' 40000) \<and>
   fst (snd (sshReversePortForwardingCallback (\<lambda>conn sess. (True, sess))
      \<lparr>config = \<lparr>DefaultControlMode = config_Split, DefaultWindowMode = config_Full,
          DefaultAuthMode = config_Everyone, DefaultSize = Some config_Medium,
          Platform = Slack, ShareEnabled = False,
          Script = (\<lambda>name. if name = ''bash'' then ''/etc/replbot/script.d/bash'' else [])\<rparr>,
        MentionBot = ''@replbot'',
        sessions = [''C1_'' \<mapsto>
          \<lparr>session_conf =
            \<lparr>conf_User = ''U1'', conf_Script = ''/tmp/replbot_share_server.sh'',
             ControlMode = ''channel'', WindowMode = ''full'', AuthMode = ''only-me'',
             Size = Some config_Medium, RelayPort = 40000\<rparr>,
          relayPort = 40000, active = False, userInputChan = [], lastActivity = 0\<rparr>]\<rparr>
      \<lparr>ctx_User = ''C1_'', ctx_Conn = Some 7\<rparr> ''localhost'' 40000)) = []"
  by (simp add: sshReversePortForwardingCallback_def session_Active_def)

text \<open>
  C1: for every active session registered under the id of the event's channel and thread:
  if its auth mode is only-me and the author of the line is not the session owner, the
  line is consumed and the bot is left as it was (nothing reaches the input channel of
  the session, from which alone the terminal is fed); if its auth mode is everyone, the
  line of any author is delivered to the input channel of the session.
\<close>

theorem maybeForwardMessage_only_me_drops:
  assumes "sessions b (SanitizeNonAlphanumeric (Channel ev @ ''_'' @ Thread ev)) = Some sess"
    and "session_Active sess"
  shows "(AuthMode (session_conf sess) = config_OnlyMe \<and>
          User ev \<noteq> conf_User (session_conf sess) \<longrightarrow>
            maybeForwardMessage SanitizeNonAlphanumeric now b ev = (True, b)) \<and>
         (AuthMode (session_conf sess) = config_Everyone \<longrightarrow>
            maybeForwardMessage SanitizeNonAlphanumeric now b ev =
              (True, b\<lparr>sessions := (sessions b)
                 (SanitizeNonAlphanumeric (Channel ev @ ''_'' @ Thread ev) \<mapsto>
                    sess\<lparr>userInputChan := userInputChan sess @ [(User ev, Message ev)],
                         lastActivity := now\<rparr>)\<rparr>))"
proof -
  have same: "b\<lparr>sessions := (sessions b)
      (SanitizeNonAlphanumeric (Channel ev @ ''_'' @ Thread ev) \<mapsto> sess)\<rparr> = b"
    using assms(1) by (simp add: map_upd_triv)
  show ?thesis
    using assms same
    by (simp add: maybeForwardMessage_def UserInput_def config_OnlyMe_def config_Everyone_def)
qed

theorem maybeForwardMessage_only_me_drops_witness:
  "maybeForwardMessage (\<lambda>s. s) 5
      \<lparr>config = \<lparr>DefaultControlMode = config_Split, DefaultWindowMode = config_Full,
          DefaultAuthMode = config_Everyone, DefaultSize = Some config_Medium,
          Platform = Slack, ShareEnabled = False,
          Script = (\<lambda>name. if name = ''bash'' then ''/etc/replbot/script.d/bash'' else [])\<rparr>,
        MentionBot = ''@replbot'',
        sessions = [''C1_'' \<mapsto>
          \<lparr>session_conf =
            \<lparr>conf_User = ''U1'', conf_Script = ''/tmp/replbot_share_server.sh'',
             ControlMode = ''channel'', WindowMode = ''full'', AuthMode = ''only-me'',
             Size = Some config_Medium, RelayPort = 40000\<rparr>,
          relayPort = 40000, active = True, userInputChan = [], lastActivity = 0\<rparr>]\<rparr>
      \<lparr>ID = ''2'', Channel = ''C1'', ChannelType = channelTypeChannel, Thread = [],
        User = ''U2'', Message = ''rm -rf /''\<rparr> =
     (True,
      \<lparr>config = \<lparr>DefaultControlMode = config_Split, DefaultWindowMode = config_Full,
          DefaultAuthMode = config_Everyone, DefaultSize = Some config_Medium,
          Platform = Slack, ShareEnabled = False,
          Script = (\<lambda>name. if name = ''bash'' then ''/etc/replbot/script.d/bash'' else [])\<rparr>,
        MentionBot = ''@replbot'',
        sessions = [''C1_'' \<mapsto>
          \<lparr>session_conf =
            \<lparr>conf_User = ''U1'', conf_Script = ''/tmp/replbot_share_server.sh'',
             ControlMode = ''channel'', WindowMode = ''full'', AuthMode = ''only-me'',
             Size = Some config_Medium, RelayPort = 40000\<rparr>,
          relayPort = 40000, active = True, userInputChan = [], lastActivity = 0\<rparr>]\<rparr>) \<and>
   map_option userInputChan (sessions (snd (maybeForwardMessage (\<lambda>s. s) 5
      \<lparr>config = \<lparr>DefaultControlMode = config_Split, DefaultWindowMode = config_Full,
          DefaultAuthMode = config_Everyone, DefaultSize = Some config_Medium,
          Platform = Slack, ShareEnabled = False,
          Script = (\<lambda>name. if name = ''bash'' then ''/etc/replbot/script.d/bash'' else [])\<rparr>,
        MentionBot = ''@replbot'',
        sessions = [''C1_'' \<mapsto>
          \<lparr>session_conf =
            \<lparr>conf_User = ''U1'', conf_Script = ''/tmp/replbot_share_server.sh'',
             ControlMode = ''channel'', WindowMode = ''full'', AuthMode = ''everyone'',
             Size = Some config_Medium, RelayPort = 40000\<rparr>,
          relayPort = 40000, active = True, userInputChan = [], lastActivity = 0\<rparr>]\<rparr>
      \<lparr>ID = ''2'', Channel = ''C1'', ChannelType = channelTypeChannel, Thread = [],
        User = ''U2'', Message = ''rm -rf /''\<rparr>)) ''C1_'') = Some [(''U2'', ''rm -rf /'')]"
proof -
  let ?only = "\<lparr>session_conf =
            \<lparr>conf_User = ''U1'', conf_Script = ''/tmp/replbot_share_server.sh'',
             ControlMode = ''channel'', WindowMode = ''full'', AuthMode = ''only-me'',
             Size = Some config_Medium, RelayPort = 40000\<rparr>,
          relayPort = 40000, active = True, userInputChan = [], lastActivity = 0\<rparr>"
  let ?every = "\<lparr>session_conf =
            \<lparr>conf_User = ''U1'', conf_Script = ''/tmp/replbot_share_server.sh'',
             ControlMode = ''channel'', WindowMode = ''full'', AuthMode = ''everyone'',
             Size = Some config_Medium, RelayPort = 40000\<rparr>,
          relayPort = 40000, active = True, userInputChan = [], lastActivity = 0\<rparr>"
  let ?b1 = "\<lparr>config = \<lparr>DefaultControlMode = config_Split, DefaultWindowMode = config_Full,
          DefaultAuthMode = config_Everyone, DefaultSize = Some config_Medium,
          Platform = Slack, ShareEnabled = False,
          Script = (\<lambda>name. if name = ''bash'' then ''/etc/replbot/script.d/bash'' else [])\<rparr>,
        MentionBot = ''@replbot'',
        sessions = [''C1_'' \<mapsto>
          \<lparr>session_conf =
            \<lparr>conf_User = ''U1'', conf_Script = ''/tmp/replbot_share_server.sh'',
             ControlMode = ''channel'', WindowMode = ''full'', AuthMode = ''only-me'',
             Size = Some config_Medium, RelayPort = 40000\<rparr>,
          relayPort = 40000, active = True, userInputChan = [], lastActivity = 0\<rparr>]\<rparr>"
  let ?b2 = "\<lparr>config = \<lparr>DefaultControlMode = config_Split, DefaultWindowMode = config_Full,
          DefaultAuthMode = config_Everyone, DefaultSize = Some config_Medium,
          Platform = Slack, ShareEnabled = False,
          Script = (\<lambda>name. if name = ''bash'' then ''/etc/replbot/script.d/bash'' else [])\<rparr>,
        MentionBot = ''@replbot'',
        sessions = [''C1_'' \<mapsto>
          \<lparr>session_conf =
            \<lparr>conf_User = ''U1'', conf_Script = ''/tmp/replbot_share_server.sh'',
             ControlMode = ''channel'', WindowMode = ''full'', AuthMode = ''everyone'',
             Size = Some config_Medium, RelayPort = 40000\<rparr>,
          relayPort = 40000, active = True, userInputChan = [], lastActivity = 0\<rparr>]\<rparr>"
  let ?ev = "\<lparr>ID = ''2'', Channel = ''C1'', ChannelType = channelTypeChannel, Thread = [],
        User = ''U2'', Message = ''rm -rf /''\<rparr>"
  have 1: "sessions ?b1 ((\<lambda>s. s) (Channel ?ev @ ''_'' @ Thread ?ev)) = Some ?only"
    by simp
  have 2: "sessions ?b2 ((\<lambda>s. s) (Channel ?ev @ ''_'' @ Thread ?ev)) = Some ?every"
    by simp
  have a: "session_Active ?only" "session_Active ?every"
    by (simp_all add: session_Active_def)
  show ?thesis
    using maybeForwardMessage_only_me_drops
        [where SanitizeNonAlphanumeric = "\<lambda>s. s" and b = ?b1 and ev = ?ev and sess = ?only
           and now = 5]
      maybeForwardMessage_only_me_drops
        [where SanitizeNonAlphanumeric = "\<lambda>s. s" and b = ?b2 and ev = ?ev and sess = ?every
           and now = 5]
      1 2 a
    by (simp add: config_OnlyMe_def config_Everyone_def)
qed

end
